theory Spec2Isabelle
  imports Main "HOL-Library.Word"
begin

unbundle bit_operations_syntax

section \<open>JavaScript values used by the generator\<close>

text \<open>
  Strings are \<^typ>\<open>string\<close>; every template of the generator is ASCII. A JavaScript
  \<open>number\<close> that holds a descriptor integer (field number, type code, label) is an
  \<^typ>\<open>int\<close>. An optional property (\<open>typeName?: string\<close>) is an \<^typ>\<open>'a option\<close>,
  \<open>None\<close> standing for \<open>undefined\<close>. A thrown exception is a value of \<open>js_error\<close>
  and a function that may throw returns \<open>js_error + 'a\<close>.
\<close>

datatype js_error =
    Error string        \<comment> \<open>\<open>throw new Error(msg)\<close>\<close>
  | TypeError string    \<comment> \<open>reading the named property of \<open>undefined\<close>\<close>

text \<open>\<open>err.message\<close>; the text of the engine's TypeError is the one V8 prints.\<close>

fun message :: "js_error \<Rightarrow> string" where
  "message (Error m) = m"
| "message (TypeError p) =
     ''Cannot read properties of undefined (reading '' @ [CHR 0x27] @ p @ [CHR 0x27] @ '')''"

text \<open>Truthiness of an optional string: \<open>undefined\<close> and \<open>""\<close> are falsy.\<close>

fun truthy :: "string option \<Rightarrow> bool" where
  "truthy None = False"
| "truthy (Some s) = (s \<noteq> [])"

text \<open>\<open>x ?? d\<close>.\<close>

fun nullish :: "'a option \<Rightarrow> 'a \<Rightarrow> 'a" where
  "nullish None d = d"
| "nullish (Some v) d = v"

subsection \<open>Number to string\<close>

text \<open>The digits of a natural number in radix 10 or 16, as JavaScript prints the
  integers of a descriptor (all below \<open>2^53\<close>, where no exponent is printed).\<close>

definition digit_char :: "nat \<Rightarrow> char" where
  "digit_char d = ''0123456789abcdef'' ! d"

fun digits_nat :: "nat \<Rightarrow> nat \<Rightarrow> string" where
  "digits_nat b n =
     (if n < b \<or> b < 2 then [digit_char n]
      else digits_nat b (n div b) @ [digit_char (n mod b)])"

declare digits_nat.simps [simp del]

text \<open>\<open>Number.prototype.toString(radix)\<close> on an integer: a minus sign, then the digits
  of the absolute value.\<close>

definition toString_radix :: "nat \<Rightarrow> int \<Rightarrow> string" where
  "toString_radix b i =
     (if i < 0 then ''-'' @ digits_nat b (nat (- i)) else digits_nat b (nat i))"

text \<open>\<open>`${n}`\<close> and \<open>n.toString(16)\<close>.\<close>

definition num_toString :: "int \<Rightarrow> string" where
  "num_toString i = toString_radix 10 i"

definition toString16 :: "int \<Rightarrow> string" where
  "toString16 i = toString_radix 16 i"

subsection \<open>String helpers\<close>

text \<open>\<open>Array.prototype.join\<close>.\<close>

fun join :: "string \<Rightarrow> string list \<Rightarrow> string" where
  "join sep [] = []"
| "join sep [x] = x"
| "join sep (x # y # ys) = x @ sep @ join sep (y # ys)"

definition nl :: string where
  "nl = [CHR 0x0A]"

text \<open>\<open>s.split(sep)\<close> where the separator is one character (\<open>"."\<close>, \<open>"/"\<close>) or a
  one-character class (\<open>/[_\-.]/\<close>): the pieces between the separators, one more than
  there are separators.\<close>

fun split_by :: "(char \<Rightarrow> bool) \<Rightarrow> string \<Rightarrow> string list" where
  "split_by sep [] = [[]]"
| "split_by sep (c # cs) =
     (if sep c then [] # split_by sep cs
      else (case split_by sep cs of
              [] \<Rightarrow> [[c]]
            | p # ps \<Rightarrow> (c # p) # ps))"

definition split_on :: "char \<Rightarrow> string \<Rightarrow> string list" where
  "split_on d s = split_by (\<lambda>c. c = d) s"

section \<open>type-map.ts\<close>

datatype WireType = Varint | Fixed64 | LengthDelimited | Fixed32

text \<open>The numeric value of the \<open>const enum\<close> member.\<close>

fun wt_code :: "WireType \<Rightarrow> int" where
  "wt_code Varint = 0"
| "wt_code Fixed64 = 1"
| "wt_code LengthDelimited = 2"
| "wt_code Fixed32 = 5"

record SolTypeInfo =
  solType :: string
  wireType :: WireType
  encodeFunc :: string
  decodeFunc :: string
  defaultValue :: string

definition mk_info :: "string \<Rightarrow> WireType \<Rightarrow> string \<Rightarrow> string \<Rightarrow> string \<Rightarrow> SolTypeInfo" where
  "mk_info s w e d v =
     \<lparr>solType = s, wireType = w, encodeFunc = e, decodeFunc = d, defaultValue = v\<rparr>"

text \<open>\<open>PROTO_TYPE_MAP[t]\<close>; \<open>None\<close> is \<open>undefined\<close> (no entry for 10 = group, nor
  outside 1..18).\<close>

definition PROTO_TYPE_MAP :: "int \<Rightarrow> SolTypeInfo option" where
  "PROTO_TYPE_MAP t =
    (if t = 1 then Some (mk_info ''int64'' Fixed64 ''_encode_fixed64'' ''_decode_fixed64'' ''0'')
     else if t = 2 then Some (mk_info ''int32'' Fixed32 ''_encode_fixed32'' ''_decode_fixed32'' ''0'')
     else if t = 3 then Some (mk_info ''int64'' Varint ''_encode_varint'' ''_decode_varint'' ''0'')
     else if t = 4 then Some (mk_info ''uint64'' Varint ''_encode_varint'' ''_decode_varint'' ''0'')
     else if t = 5 then Some (mk_info ''int32'' Varint ''_encode_varint'' ''_decode_varint'' ''0'')
     else if t = 6 then Some (mk_info ''uint64'' Fixed64 ''_encode_fixed64'' ''_decode_fixed64'' ''0'')
     else if t = 7 then Some (mk_info ''uint32'' Fixed32 ''_encode_fixed32'' ''_decode_fixed32'' ''0'')
     else if t = 8 then Some (mk_info ''bool'' Varint ''_encode_bool'' ''_decode_bool'' ''false'')
     else if t = 9 then Some (mk_info ''string'' LengthDelimited ''_encode_string'' ''_decode_string''
                                [CHR 0x22, CHR 0x22])
     else if t = 11 then Some (mk_info [] LengthDelimited [] [] [])
     else if t = 12 then Some (mk_info ''bytes'' LengthDelimited ''_encode_bytes'' ''_decode_bytes''
                                [CHR 0x22, CHR 0x22])
     else if t = 13 then Some (mk_info ''uint32'' Varint ''_encode_varint'' ''_decode_varint'' ''0'')
     else if t = 14 then Some (mk_info ''uint64'' Varint ''_encode_varint'' ''_decode_varint'' ''0'')
     else if t = 15 then Some (mk_info ''int32'' Fixed32 ''_encode_sfixed32'' ''_decode_sfixed32'' ''0'')
     else if t = 16 then Some (mk_info ''int64'' Fixed64 ''_encode_sfixed64'' ''_decode_sfixed64'' ''0'')
     else if t = 17 then Some (mk_info ''int32'' Varint ''_encode_zigzag32'' ''_decode_zigzag32'' ''0'')
     else if t = 18 then Some (mk_info ''int64'' Varint ''_encode_zigzag64'' ''_decode_zigzag64'' ''0'')
     else None)"

text \<open>\<open>typeName.replace(/^\./, "")\<close>: one leading dot is dropped.\<close>

fun strip_leading_dot :: "string \<Rightarrow> string" where
  "strip_leading_dot [] = []"
| "strip_leading_dot (c # cs) = (if c = CHR ''.'' then cs else c # cs)"

text \<open>\<open>parts[parts.length - 1]\<close>; \<open>split\<close> never returns an empty array, so the
  index is in range.\<close>

definition resolveSolType :: "int \<Rightarrow> string option \<Rightarrow> js_error + string" where
  "resolveSolType fieldType typeName =
     (if fieldType = 11 \<and> truthy typeName then
        (let parts = split_on (CHR ''.'') (strip_leading_dot (nullish typeName []))
         in Inr (parts ! (length parts - 1)))
      else (case PROTO_TYPE_MAP fieldType of
              None \<Rightarrow> Inl (Error (''Unsupported protobuf field type: '' @ num_toString fieldType))
            | Some info \<Rightarrow> Inr (solType info)))"

text \<open>
  \<open>(fieldNumber << 3) | wireType\<close>. The bitwise operators of JavaScript work on
  32-bit two's complement integers: each operand goes through ToInt32 and the result
  is read back as a signed 32-bit value.
\<close>

definition toInt32 :: "int \<Rightarrow> 32 word" where
  "toInt32 x = word_of_int x"

definition fieldTag :: "int \<Rightarrow> WireType \<Rightarrow> int" where
  "fieldTag fieldNumber wt =
     sint (push_bit 3 (toInt32 fieldNumber) OR toInt32 (wt_code wt))"

text \<open>The decomposition of a tag with JavaScript's operators: \<open>tag >> 3\<close>
  (sign-propagating) and \<open>tag & 7\<close>.\<close>

definition tag_number :: "int \<Rightarrow> int" where
  "tag_number tag = sint (signed_drop_bit 3 (toInt32 tag))"

definition tag_wire :: "int \<Rightarrow> int" where
  "tag_wire tag = sint (toInt32 tag AND toInt32 7)"

section \<open>util/names.ts\<close>

definition is_lower :: "char \<Rightarrow> bool" where
  "is_lower c = (97 \<le> (of_char c :: nat) \<and> (of_char c :: nat) \<le> 122)"

text \<open>\<open>c.toUpperCase()\<close>, called on a match of \<open>[a-z]\<close> only.\<close>

definition to_upper :: "char \<Rightarrow> char" where
  "to_upper c = (if is_lower c then char_of ((of_char c :: nat) - 32) else c)"

text \<open>
  \<open>name.replace(/_([a-z])/g, (_, c) => c.toUpperCase())\<close>: the global replace scans
  from the left; at an underscore followed by a lowercase letter both characters are
  consumed and the uppercased letter is written, anywhere else one character is copied.
\<close>

fun snakeToCamel :: "string \<Rightarrow> string" where
  "snakeToCamel [] = []"
| "snakeToCamel [c] = [c]"
| "snakeToCamel (c # d # cs) =
     (if c = CHR ''_'' \<and> is_lower d then to_upper d # snakeToCamel cs
      else c # snakeToCamel (d # cs))"

definition codecLibName :: "string \<Rightarrow> string" where
  "codecLibName messageName = messageName @ ''Codec''"

text \<open>\<open>protoFile.replace(/\.proto$/, "")\<close>.\<close>

definition strip_proto_ext :: "string \<Rightarrow> string" where
  "strip_proto_ext s =
     (if 6 \<le> length s \<and> drop (length s - 6) s = ''.proto'' then take (length s - 6) s
      else s)"

text \<open>\<open>s.charAt(0).toUpperCase() + s.slice(1)\<close>, on ASCII file names.\<close>

fun capitalise :: "string \<Rightarrow> string" where
  "capitalise [] = []"
| "capitalise (c # cs) = to_upper c # cs"

definition protoFileToSolFile :: "string \<Rightarrow> string \<Rightarrow> string" where
  "protoFileToSolFile protoFile packageName =
     (let base = strip_proto_ext protoFile;
          parts = split_on (CHR ''/'') base;
          filename = parts ! (length parts - 1);
          pascal = concat (map capitalise
                     (split_by (\<lambda>c. c = CHR ''_'' \<or> c = CHR ''-'' \<or> c = CHR ''.'') filename));
          solBasename = pascal @ ''.pb.sol''
      in if packageName = [] then solBasename
         else join ''/'' (split_on (CHR ''.'') packageName) @ ''/'' @ solBasename)"

section \<open>generator/field.ts\<close>

record MapEntry =
  keyType :: int
  valueType :: int
  valueTypeName :: "string option"

record FieldInfo =
  fi_name :: string
  fi_number :: int
  fi_type :: int
  fi_typeName :: "string option"
  fi_label :: int
  fi_oneofIndex :: "int option"
  fi_mapEntry :: "MapEntry option"

definition isRepeated :: "FieldInfo \<Rightarrow> bool" where
  "isRepeated field = (fi_label field = 3)"

definition isMessage :: "FieldInfo \<Rightarrow> bool" where
  "isMessage field = (fi_type field = 11)"

text \<open>Sequencing of calls that may throw: the first exception leaves the function.\<close>

definition bind_err :: "js_error + 'a \<Rightarrow> ('a \<Rightarrow> js_error + 'b) \<Rightarrow> js_error + 'b" where
  "bind_err r f = (case r of Inl e \<Rightarrow> Inl e | Inr v \<Rightarrow> f v)"

text \<open>\<open>info.wireType\<close> and the like on a table entry that may be \<open>undefined\<close>:
  reading a property of \<open>undefined\<close> throws a TypeError.\<close>

definition prop_of :: "string \<Rightarrow> 'a option \<Rightarrow> ('a \<Rightarrow> 'b) \<Rightarrow> js_error + 'b" where
  "prop_of p obj sel = (case obj of None \<Rightarrow> Inl (TypeError p) | Some v \<Rightarrow> Inr (sel v))"

definition genStructMember :: "FieldInfo \<Rightarrow> js_error + string" where
  "genStructMember field =
     (let solName = snakeToCamel (fi_name field) in
      bind_err (resolveSolType (fi_type field) (fi_typeName field)) (\<lambda>solType0.
        case fi_mapEntry field of
          Some me \<Rightarrow>
            bind_err (resolveSolType (keyType me) None) (\<lambda>keyT.
            bind_err (resolveSolType (valueType me) (valueTypeName me)) (\<lambda>valT.
              Inr (join nl
                [''    '' @ keyT @ ''[] '' @ solName @ ''_keys;'',
                 ''    '' @ valT @ ''[] '' @ solName @ ''_values;''])))
        | None \<Rightarrow>
            (let solType1 = (if isRepeated field then solType0 @ ''[]'' else solType0)
             in Inr (''    '' @ solType1 @ '' '' @ solName @ '';''))))"

definition genScalarEncode :: "string \<Rightarrow> SolTypeInfo \<Rightarrow> string \<Rightarrow> string" where
  "genScalarEncode solName typeInfo tagHex =
     join nl
      [''    buf = abi.encodePacked(buf, ProtobufRuntime._encode_key('' @ tagHex @ ''));'',
       ''    buf = abi.encodePacked(buf, ProtobufRuntime.'' @ encodeFunc typeInfo
          @ ''(msg.'' @ solName @ ''));'']"

definition genMessageEncode :: "FieldInfo \<Rightarrow> string \<Rightarrow> string \<Rightarrow> js_error + string" where
  "genMessageEncode field solName tagHex =
     bind_err (resolveSolType (fi_type field) (fi_typeName field)) (\<lambda>t.
       let nestedCodec = codecLibName t in
       Inr (join nl
        [''    buf = abi.encodePacked(buf, ProtobufRuntime._encode_key('' @ tagHex @ ''));'',
         ''    bytes memory '' @ solName @ ''_encoded = '' @ nestedCodec
            @ ''.encode(msg.'' @ solName @ '');'',
         ''    buf = abi.encodePacked(buf, ProtobufRuntime._encode_varint(uint64(''
            @ solName @ ''_encoded.length)));'',
         ''    buf = abi.encodePacked(buf, '' @ solName @ ''_encoded);'']))"

definition genRepeatedEncode ::
  "FieldInfo \<Rightarrow> string \<Rightarrow> SolTypeInfo \<Rightarrow> string \<Rightarrow> js_error + string" where
  "genRepeatedEncode field solName typeInfo tagHex =
     (let loopVar = ''_i_'' @ solName;
          lines0 =
           [''    for (uint256 '' @ loopVar @ '' = 0; '' @ loopVar @ '' < msg.'' @ solName
              @ ''.length; '' @ loopVar @ ''++) {'',
            ''      buf = abi.encodePacked(buf, ProtobufRuntime._encode_key('' @ tagHex @ ''));'']
      in bind_err
          (if isMessage field then
             bind_err (resolveSolType (fi_type field) (fi_typeName field)) (\<lambda>t.
               let nestedCodec = codecLibName t in
               Inr (lines0 @
                [''      bytes memory _elem = '' @ nestedCodec @ ''.encode(msg.'' @ solName
                   @ ''['' @ loopVar @ '']);'',
                 ''      buf = abi.encodePacked(buf, ProtobufRuntime._encode_varint(uint64(_elem.length)));'',
                 ''      buf = abi.encodePacked(buf, _elem);'']))
           else
             Inr (lines0 @
                [''      buf = abi.encodePacked(buf, ProtobufRuntime.'' @ encodeFunc typeInfo
                   @ ''(msg.'' @ solName @ ''['' @ loopVar @ '']));'']))
          (\<lambda>lines1. Inr (join nl (lines1 @ [''    }'']))))"

definition genMapEncode :: "FieldInfo \<Rightarrow> string \<Rightarrow> js_error + string" where
  \<open>genMapEncode field tagHex =
     (let solName = snakeToCamel (fi_name field);
          loopVar = ''_i_'' @ solName
      in bind_err (prop_of ''keyType'' (fi_mapEntry field) id) (\<lambda>me.
         let keyInfo = PROTO_TYPE_MAP (keyType me);
             valInfo = PROTO_TYPE_MAP (valueType me)
         in bind_err (prop_of ''wireType'' keyInfo wireType) (\<lambda>keyWire.
            bind_err (prop_of ''encodeFunc'' keyInfo encodeFunc) (\<lambda>keyEnc.
            let lines0 =
              [''    for (uint256 '' @ loopVar @ '' = 0; '' @ loopVar @ '' < msg.'' @ solName
                 @ ''_keys.length; '' @ loopVar @ ''++) {'',
               ''      bytes memory _entry = "";'',
               ''      _entry = abi.encodePacked(_entry, ProtobufRuntime._encode_key(''
                 @ num_toString (fieldTag 1 keyWire) @ ''));'',
               ''      _entry = abi.encodePacked(_entry, ProtobufRuntime.'' @ keyEnc
                 @ ''(msg.'' @ solName @ ''_keys['' @ loopVar @ '']));'']
            in bind_err
               (if valueType me = 11 then
                  bind_err (resolveSolType (valueType me) (valueTypeName me)) (\<lambda>t.
                    let nestedCodec = codecLibName t in
                    Inr (lines0 @
                     [''      bytes memory _val = '' @ nestedCodec @ ''.encode(msg.'' @ solName
                        @ ''_values['' @ loopVar @ '']);'',
                      ''      _entry = abi.encodePacked(_entry, ProtobufRuntime._encode_key(''
                        @ num_toString (fieldTag 2 LengthDelimited) @ ''));'',
                      ''      _entry = abi.encodePacked(_entry, ProtobufRuntime._encode_varint(uint64(_val.length)));'',
                      ''      _entry = abi.encodePacked(_entry, _val);'']))
                else
                  bind_err (prop_of ''wireType'' valInfo wireType) (\<lambda>valWire.
                  bind_err (prop_of ''encodeFunc'' valInfo encodeFunc) (\<lambda>valEnc.
                    Inr (lines0 @
                     [''      _entry = abi.encodePacked(_entry, ProtobufRuntime._encode_key(''
                        @ num_toString (fieldTag 2 valWire) @ ''));'',
                      ''      _entry = abi.encodePacked(_entry, ProtobufRuntime.'' @ valEnc
                        @ ''(msg.'' @ solName @ ''_values['' @ loopVar @ '']));'']))))
               (\<lambda>lines1. Inr (join nl (lines1 @
                  [''      buf = abi.encodePacked(buf, ProtobufRuntime._encode_key('' @ tagHex @ ''));'',
                   ''      buf = abi.encodePacked(buf, ProtobufRuntime._encode_varint(uint64(_entry.length)));'',
                   ''      buf = abi.encodePacked(buf, _entry);'',
                   ''    }''])))))))\<close>

text \<open>The call of \<open>log.warn\<close> in the first branch writes to stderr and does not
  change what is returned; it is left out.\<close>

definition genFieldEncode :: "FieldInfo \<Rightarrow> js_error + string" where
  "genFieldEncode field =
     (let solName = snakeToCamel (fi_name field) in
      case PROTO_TYPE_MAP (fi_type field) of
        None \<Rightarrow>
          Inr (''    // TODO: unsupported field type '' @ num_toString (fi_type field)
               @ '' for '' @ fi_name field)
      | Some typeInfo \<Rightarrow>
          (let tag = fieldTag (fi_number field)
                       (if fi_mapEntry field \<noteq> None then LengthDelimited
                        else wireType typeInfo);
               tagHex = ''0x'' @ toString16 tag
           in if fi_mapEntry field \<noteq> None then genMapEncode field tagHex
              else if isRepeated field then genRepeatedEncode field solName typeInfo tagHex
              else if isMessage field then genMessageEncode field solName tagHex
              else Inr (genScalarEncode solName typeInfo tagHex)))"

definition genScalarDecode :: "string \<Rightarrow> SolTypeInfo \<Rightarrow> int \<Rightarrow> string" where
  "genScalarDecode solName typeInfo tag =
     join nl
      [''        case '' @ num_toString tag @ '':'',
       ''          (msg.'' @ solName @ '', pos) = ProtobufRuntime.'' @ decodeFunc typeInfo
          @ ''(data, pos);'',
       ''          break;'']"

definition genMessageDecode :: "FieldInfo \<Rightarrow> string \<Rightarrow> int \<Rightarrow> js_error + string" where
  "genMessageDecode field solName tag =
     bind_err (resolveSolType (fi_type field) (fi_typeName field)) (\<lambda>t.
       let nestedCodec = codecLibName t in
       Inr (join nl
        [''        case '' @ num_toString tag @ '':'',
         ''          {'',
         ''            uint64 _len;'',
         ''            (_len, pos) = ProtobufRuntime._decode_varint(data, pos);'',
         ''            bytes memory _sub = ProtobufRuntime._slice(data, pos, pos + uint256(_len));'',
         ''            msg.'' @ solName @ '' = '' @ nestedCodec @ ''.decode(_sub);'',
         ''            pos += uint256(_len);'',
         ''          }'',
         ''          break;'']))"

definition genRepeatedDecode ::
  "FieldInfo \<Rightarrow> string \<Rightarrow> SolTypeInfo \<Rightarrow> int \<Rightarrow> js_error + string" where
  "genRepeatedDecode field solName typeInfo tag =
     (if isMessage field then
        bind_err (resolveSolType (fi_type field) (fi_typeName field)) (\<lambda>t.
          let nestedCodec = codecLibName t in
          Inr (join nl
           [''        case '' @ num_toString tag @ '':'',
            ''          {'',
            ''            uint64 _len;'',
            ''            (_len, pos) = ProtobufRuntime._decode_varint(data, pos);'',
            ''            bytes memory _sub = ProtobufRuntime._slice(data, pos, pos + uint256(_len));'',
            ''            msg.'' @ solName @ ''.push('' @ nestedCodec @ ''.decode(_sub));'',
            ''            pos += uint256(_len);'',
            ''          }'',
            ''          break;'']))
      else
        bind_err (resolveSolType (fi_type field) (fi_typeName field)) (\<lambda>t.
          Inr (join nl
           [''        case '' @ num_toString tag @ '':'',
            ''          {'',
            ''            '' @ t @ '' _elem;'',
            ''            (_elem, pos) = ProtobufRuntime.'' @ decodeFunc typeInfo @ ''(data, pos);'',
            ''            msg.'' @ solName @ ''.push(_elem);'',
            ''          }'',
            ''          break;''])))"

definition genMapDecode :: "FieldInfo \<Rightarrow> string \<Rightarrow> int \<Rightarrow> js_error + string" where
  \<open>genMapDecode field solName tag =
     bind_err (prop_of ''keyType'' (fi_mapEntry field) id) (\<lambda>me.
       let keyInfo = PROTO_TYPE_MAP (keyType me);
           valInfo = PROTO_TYPE_MAP (valueType me)
       in bind_err (resolveSolType (keyType me) None) (\<lambda>keySol.
          bind_err (resolveSolType (valueType me) (valueTypeName me)) (\<lambda>valSol.
          bind_err (prop_of ''wireType'' keyInfo wireType) (\<lambda>keyWire.
          bind_err (prop_of ''decodeFunc'' keyInfo decodeFunc) (\<lambda>keyDec.
          let lines0 =
            [''        case '' @ num_toString tag @ '':'',
             ''          {'',
             ''            uint64 _entryLen;'',
             ''            (_entryLen, pos) = ProtobufRuntime._decode_varint(data, pos);'',
             ''            uint256 _entryEnd = pos + uint256(_entryLen);'',
             ''            '' @ keySol @ '' _key;'',
             ''            '' @ valSol @ '' _val;'',
             ''            while (pos < _entryEnd) {'',
             ''              uint64 _entryTag;'',
             ''              (_entryTag, pos) = ProtobufRuntime._decode_key(data, pos);'',
             ''              if (_entryTag == '' @ num_toString (fieldTag 1 keyWire) @ '') {'',
             ''                (_key, pos) = ProtobufRuntime.'' @ keyDec @ ''(data, pos);'']
          in bind_err
             (if valueType me = 11 then
                bind_err (resolveSolType (valueType me) (valueTypeName me)) (\<lambda>t.
                  let nestedCodec = codecLibName t in
                  Inr (lines0 @
                   [''              } else if (_entryTag == ''
                      @ num_toString (fieldTag 2 LengthDelimited) @ '') {'',
                    ''                uint64 _vLen;'',
                    ''                (_vLen, pos) = ProtobufRuntime._decode_varint(data, pos);'',
                    ''                bytes memory _vSub = ProtobufRuntime._slice(data, pos, pos + uint256(_vLen));'',
                    ''                _val = '' @ nestedCodec @ ''.decode(_vSub);'',
                    ''                pos += uint256(_vLen);'']))
              else
                bind_err (prop_of ''wireType'' valInfo wireType) (\<lambda>valWire.
                bind_err (prop_of ''decodeFunc'' valInfo decodeFunc) (\<lambda>valDec.
                  Inr (lines0 @
                   [''              } else if (_entryTag == ''
                      @ num_toString (fieldTag 2 valWire) @ '') {'',
                    ''                (_val, pos) = ProtobufRuntime.'' @ valDec @ ''(data, pos);'']))))
             (\<lambda>lines1. Inr (join nl (lines1 @
                [''              } else {'',
                 ''                revert("Unknown map entry tag");'',
                 ''              }'',
                 ''            }'',
                 ''            msg.'' @ solName @ ''_keys.push(_key);'',
                 ''            msg.'' @ solName @ ''_values.push(_val);'',
                 ''          }'',
                 ''          break;'']))))))))\<close>

definition genFieldDecode :: "FieldInfo \<Rightarrow> js_error + string" where
  "genFieldDecode field =
     (let solName = snakeToCamel (fi_name field) in
      case PROTO_TYPE_MAP (fi_type field) of
        None \<Rightarrow>
          Inr (''      // TODO: unsupported field type '' @ num_toString (fi_type field)
               @ '' for '' @ fi_name field)
      | Some typeInfo \<Rightarrow>
          (let tag = fieldTag (fi_number field)
                       (if fi_mapEntry field \<noteq> None then LengthDelimited
                        else wireType typeInfo)
           in if fi_mapEntry field \<noteq> None then genMapDecode field solName tag
              else if isRepeated field then genRepeatedDecode field solName typeInfo tag
              else if isMessage field then genMessageDecode field solName tag
              else Inr (genScalarDecode solName typeInfo tag)))"

section \<open>plugin.ts\<close>

text \<open>
  The request decoded by protobufjs is an object of type \<open>any\<close>; each property the
  plugin reads may be absent, and is read through \<open>??\<close> with a default.
\<close>

record FieldDescriptorProto =
  fd_name :: "string option"
  fd_number :: "int option"
  fd_label :: "int option"
  fd_type :: "int option"
  fd_type_name :: "string option"
  fd_oneof_index :: "int option"

record MessageOptions =
  map_entry :: "bool option"

datatype DescriptorProto =
  DescriptorProto
    (dp_name: "string option")
    (dp_field: "FieldDescriptorProto list option")
    (dp_nested_type: "DescriptorProto list option")
    (dp_options: "MessageOptions option")

record FileDescriptorProto =
  fdp_name :: "string option"
  fdp_package :: "string option"
  fdp_message_type :: "DescriptorProto list option"

record CodeGeneratorRequest =
  file_to_generate :: "string list option"
  parameter :: "string option"
  proto_file :: "FileDescriptorProto list option"

datatype MessageDescriptor =
  MessageDescriptor
    (md_name: string)
    (md_fullName: string)
    (md_fields: "FieldInfo list")
    (md_nestedMessages: "MessageDescriptor list")
    (md_isMapEntry: bool)

text \<open>The object literal built for each field in \<open>convertDescriptor\<close>: it has no
  \<open>mapEntry\<close> property.\<close>

definition convertField :: "FieldDescriptorProto \<Rightarrow> FieldInfo" where
  "convertField f =
     \<lparr>fi_name = nullish (fd_name f) [],
      fi_number = nullish (fd_number f) 0,
      fi_type = nullish (fd_type f) 0,
      fi_typeName = fd_type_name f,
      fi_label = nullish (fd_label f) 1,
      fi_oneofIndex = fd_oneof_index f,
      fi_mapEntry = None\<rparr>"

text \<open>\<open>desc.options?.map_entry === true\<close>.\<close>

definition map_entry_flag :: "MessageOptions option \<Rightarrow> bool" where
  "map_entry_flag opts =
     (case opts of None \<Rightarrow> False | Some ob \<Rightarrow> map_entry ob = Some True)"

fun convertDescriptor :: "DescriptorProto \<Rightarrow> string \<Rightarrow> MessageDescriptor" where
  "convertDescriptor (DescriptorProto dname dfield dnested dopts) parentFqn =
     (let name = nullish dname [];
          fullName = (if parentFqn \<noteq> [] then parentFqn @ ''.'' @ name else name);
          isMapEntry = map_entry_flag dopts;
          fields = map convertField (nullish dfield []);
          nestedMessages =
            (case dnested of
               None \<Rightarrow> []
             | Some ns \<Rightarrow> map (\<lambda>nested. convertDescriptor nested fullName) ns)
      in MessageDescriptor name fullName fields nestedMessages isMapEntry)"

definition extractMessages :: "FileDescriptorProto \<Rightarrow> string \<Rightarrow> MessageDescriptor list" where
  "extractMessages protoFile packageName =
     map (\<lambda>msg. convertDescriptor msg packageName) (nullish (fdp_message_type protoFile) [])"

record OutFile =
  of_name :: string
  of_content :: string

record PluginResult =
  pr_files :: "OutFile list"
  pr_error :: "string option"

text \<open>
  The loop of \<open>processRequest\<close> over \<open>protoFiles\<close>, with the array \<open>files\<close> it pushes
  to. \<open>generateSolFile\<close> (generator/message.ts) is a parameter; it may throw. An
  exception leaves the loop and the function; the files pushed so far are lost with
  the local array.
\<close>

fun process_files ::
  "(MessageDescriptor list \<Rightarrow> string \<Rightarrow> js_error + string) \<Rightarrow> string list
   \<Rightarrow> FileDescriptorProto list \<Rightarrow> OutFile list \<Rightarrow> js_error + OutFile list" where
  "process_files generateSolFile filesToGenerate [] files = Inr files"
| "process_files generateSolFile filesToGenerate (protoFile # rest) files =
     (let fileName = nullish (fdp_name protoFile) [] in
      if fileName \<notin> set filesToGenerate
      then process_files generateSolFile filesToGenerate rest files
      else
        (let messages = extractMessages protoFile (nullish (fdp_package protoFile) []) in
         if length messages = 0
         then process_files generateSolFile filesToGenerate rest files
         else
           (let solFileName = protoFileToSolFile fileName (nullish (fdp_package protoFile) [])
            in bind_err (generateSolFile messages fileName) (\<lambda>solContent.
                 process_files generateSolFile filesToGenerate rest
                   (files @ [\<lparr>of_name = solFileName, of_content = solContent\<rparr>])))))"

text \<open>
  \<open>processRequest\<close>. Taken as parameters: \<open>decode\<close>, the protobufjs decoder of the
  request (it throws on malformed input), \<open>generateSolFile\<close>, and \<open>runtime\<close>, the text
  \<open>generateRuntime()\<close> returns. Parsing the plugin parameter only sets the log level
  and is left out, as the log calls are.
\<close>

definition processRequest ::
  "('buf \<Rightarrow> js_error + CodeGeneratorRequest)
   \<Rightarrow> (MessageDescriptor list \<Rightarrow> string \<Rightarrow> js_error + string) \<Rightarrow> string
   \<Rightarrow> 'buf \<Rightarrow> js_error + PluginResult" where
  "processRequest decode generateSolFile runtime stdin =
     bind_err (decode stdin) (\<lambda>request.
       let filesToGenerate = nullish (file_to_generate request) [];
           protoFiles = nullish (proto_file request) [];
           files = [\<lparr>of_name = ''ProtobufRuntime.sol'', of_content = runtime\<rparr>]
       in bind_err (process_files generateSolFile filesToGenerate protoFiles files)
            (\<lambda>files'. Inr \<lparr>pr_files = files', pr_error = None\<rparr>))"

text \<open>The \<open>result\<close> of \<open>runPlugin\<close> after its \<open>try\<close>/\<open>catch\<close>.\<close>

definition runPlugin_result ::
  "('buf \<Rightarrow> js_error + CodeGeneratorRequest)
   \<Rightarrow> (MessageDescriptor list \<Rightarrow> string \<Rightarrow> js_error + string) \<Rightarrow> string
   \<Rightarrow> 'buf \<Rightarrow> PluginResult" where
  "runPlugin_result decode generateSolFile runtime stdin =
     (case processRequest decode generateSolFile runtime stdin of
        Inr result \<Rightarrow> result
      | Inl err \<Rightarrow> \<lparr>pr_files = [], pr_error = Some (message err)\<rparr>)"




section \<open>Definitions used to state the properties\<close>

subsection \<open>snakeToCamel, character by character\<close>

text \<open>
  What becomes of the character at index \<open>i\<close> of \<open>s\<close>: an underscore directly
  followed by a lowercase letter is removed; a lowercase letter directly preceded by an
  underscore is uppercased; every other character stays.
\<close>

definition camel_at :: "string \<Rightarrow> nat \<Rightarrow> string" where
  "camel_at s i =
     (if s ! i = CHR ''_'' \<and> Suc i < length s \<and> is_lower (s ! Suc i) then []
      else if 0 < i \<and> s ! (i - 1) = CHR ''_'' \<and> is_lower (s ! i) then [to_upper (s ! i)]
      else [s ! i])"

definition snakeToCamel_spec :: "string \<Rightarrow> string" where
  "snakeToCamel_spec s = concat (map (camel_at s) [0..<length s])"

text \<open>The same reading with the index shifted past a first character; the flag tells
  whether the character before index 0 is an underscore.\<close>

definition cam :: "bool \<Rightarrow> string \<Rightarrow> nat \<Rightarrow> string" where
  "cam p s i =
     (if s ! i = CHR ''_'' \<and> Suc i < length s \<and> is_lower (s ! Suc i) then []
      else if (if i = 0 then p else s ! (i - 1) = CHR ''_'') \<and> is_lower (s ! i)
        then [to_upper (s ! i)]
      else [s ! i])"

subsection \<open>The last dot-separated segment of a type name\<close>

definition last_segment :: "string \<Rightarrow> string" where
  "last_segment s = rev (takeWhile (\<lambda>c. c \<noteq> CHR ''.'') (rev s))"

subsection \<open>All fields of a message descriptor, nested messages included\<close>


subsection \<open>The output a run owes\<close>



subsection \<open>Example inputs\<close>

text \<open>A field of type group (10), and a field whose number is \<open>2^28\<close>.\<close>

definition ex_group_field :: FieldInfo where
  "ex_group_field =
     \<lparr>fi_name = ''legacy'', fi_number = 4, fi_type = 10, fi_typeName = None,
      fi_label = 1, fi_oneofIndex = None, fi_mapEntry = None\<rparr>"

definition ex_big_number_field :: FieldInfo where
  "ex_big_number_field =
     \<lparr>fi_name = ''far'', fi_number = 268435456, fi_type = 5, fi_typeName = None,
      fi_label = 1, fi_oneofIndex = None, fi_mapEntry = None\<rparr>"

text \<open>A message field, a repeated scalar field and a map field
  (\<open>map<int32, string> labels = 7\<close>).\<close>

definition ex_message_field :: FieldInfo where
  "ex_message_field =
     \<lparr>fi_name = ''inner_msg'', fi_number = 3, fi_type = 11,
      fi_typeName = Some ''.pkg.Outer.Inner'', fi_label = 1, fi_oneofIndex = None,
      fi_mapEntry = None\<rparr>"


definition ex_map_field :: FieldInfo where
  "ex_map_field =
     \<lparr>fi_name = ''labels'', fi_number = 7, fi_type = 11,
      fi_typeName = Some ''.pkg.M.LabelsEntry'', fi_label = 3, fi_oneofIndex = None,
      fi_mapEntry = Some \<lparr>keyType = 5, valueType = 9, valueTypeName = None\<rparr>\<rparr>"

text \<open>
  A message \<open>M\<close> of package \<open>pkg\<close> with two map fields, the way protoc describes
  them: \<open>foo\<close> refers to the nested map-entry message \<open>FooEntry\<close> (key and value),
  \<open>bar\<close> to the nested map-entry message \<open>BarEntry\<close>, which has no field at all.
\<close>

definition ex_entry_desc :: DescriptorProto where
  "ex_entry_desc =
     DescriptorProto (Some ''FooEntry'')
       (Some [\<lparr>fd_name = Some ''key'', fd_number = Some 1, fd_label = Some 1,
                fd_type = Some 5, fd_type_name = None, fd_oneof_index = None\<rparr>,
              \<lparr>fd_name = Some ''value'', fd_number = Some 2, fd_label = Some 1,
                fd_type = Some 9, fd_type_name = None, fd_oneof_index = None\<rparr>])
       None (Some \<lparr>map_entry = Some True\<rparr>)"

definition ex_bad_entry_desc :: DescriptorProto where
  "ex_bad_entry_desc =
     DescriptorProto (Some ''BarEntry'') None None (Some \<lparr>map_entry = Some True\<rparr>)"

definition ex_message_desc :: DescriptorProto where
  "ex_message_desc =
     DescriptorProto (Some ''M'')
       (Some [\<lparr>fd_name = Some ''foo'', fd_number = Some 1, fd_label = Some 3,
                fd_type = Some 11, fd_type_name = Some ''.pkg.M.FooEntry'',
                fd_oneof_index = None\<rparr>,
              \<lparr>fd_name = Some ''bar'', fd_number = Some 2, fd_label = Some 3,
                fd_type = Some 11, fd_type_name = Some ''.pkg.M.BarEntry'',
                fd_oneof_index = None\<rparr>])
       (Some [ex_entry_desc, ex_bad_entry_desc]) None"

definition ex_proto_file :: FileDescriptorProto where
  "ex_proto_file =
     \<lparr>fdp_name = Some ''m.proto'', fdp_package = Some ''pkg'',
      fdp_message_type = Some [ex_message_desc]\<rparr>"

text \<open>A request for two schema files and a generator that throws on the second.\<close>

definition ex_request :: CodeGeneratorRequest where
  "ex_request =
     \<lparr>file_to_generate = Some [''m.proto'', ''n.proto''],
      parameter = None,
      proto_file = Some [ex_proto_file, ex_proto_file\<lparr>fdp_name := Some ''n.proto''\<rparr>]\<rparr>"

definition ex_generateSolFile :: "MessageDescriptor list \<Rightarrow> string \<Rightarrow> js_error + string" where
  "ex_generateSolFile messages fileName =
     (if fileName = ''n.proto'' then Inl (Error ''Unsupported protobuf field type: 10'')
      else Inr ''// generated'')"

section \<open>Field tags\<close>

lemma or_wire_code: "8 * (n::int) OR wt_code w = 8 * n + wt_code w"
  by (cases w)
     (simp_all add: or_int_rec[of "8 * n"] or_int_rec[of "4 * n"] or_int_rec[of "2 * n"])

lemma sint32_of_int: "sint (word_of_int k :: 32 word) = signed_take_bit 31 k"
  by (simp add: sint_sbintrunc')

text \<open>The tag is the exact value \<open>8 * n + c\<close> wrapped to a signed 32-bit integer.\<close>

lemma fieldTag_int: "fieldTag n w = signed_take_bit 31 (8 * n + wt_code w)"
proof -
  have "push_bit 3 (word_of_int n :: 32 word) = word_of_int (8 * n)"
    by (simp add: push_bit_eq_mult)
  then have "push_bit 3 (word_of_int n :: 32 word) OR word_of_int (wt_code w)
             = word_of_int (8 * n OR wt_code w)"
    by (simp only: word_wi_log_defs)
  then show ?thesis
    by (simp only: fieldTag_def toInt32_def sint32_of_int or_wire_code)
qed

lemma and_7_mod: "(t::int) AND 7 = t mod 8"
proof -
  have "(7::int) = mask 3" by (simp add: mask_eq_exp_minus_1)
  then have "t AND 7 = take_bit 3 t" by (simp only: take_bit_eq_mask)
  then show ?thesis by (simp add: take_bit_eq_mod)
qed

lemma tag_wire_eq: "tag_wire t = t mod 8"
proof -
  have "(word_of_int t AND word_of_int 7 :: 32 word) = word_of_int (t AND 7)"
    by (simp only: word_wi_log_defs)
  then have "tag_wire t = signed_take_bit 31 (t mod 8)"
    by (simp only: tag_wire_def toInt32_def sint32_of_int and_7_mod)
  moreover have "signed_take_bit 31 (t mod 8) = t mod 8"
  proof (rule signed_take_bit_int_eq_self)
    have p: "0 \<le> t mod 8" "t mod 8 < 8" by simp_all
    have q: "- (2 ^ 31) \<le> (0::int)" "(8::int) \<le> 2 ^ 31" by simp_all
    show "- (2 ^ 31) \<le> t mod 8" using p q by linarith
    show "t mod 8 < 2 ^ 31" using p q by linarith
  qed
  ultimately show ?thesis by simp
qed

lemma wt_code_range: "0 \<le> wt_code w \<and> wt_code w < 8"
  by (cases w) simp_all

lemma fieldTag_exact:
  assumes "- (2 ^ 28) \<le> n" "n < 2 ^ 28"
  shows "fieldTag n w = 8 * n + wt_code w"
proof -
  have "- (2 ^ 31) \<le> 8 * n + wt_code w" "8 * n + wt_code w < 2 ^ 31"
    using assms wt_code_range[of w] by simp_all
  then show ?thesis
    unfolding fieldTag_int by (rule signed_take_bit_int_eq_self)
qed

lemma tag_number_small:
  assumes "- (2 ^ 31) \<le> t" "t < 2 ^ 31"
  shows "tag_number t = t div 8"
proof -
  have "signed_take_bit 31 t = t" using assms by (rule signed_take_bit_int_eq_self)
  then show ?thesis
    by (simp add: tag_number_def toInt32_def sint_signed_drop_bit_eq sint32_of_int drop_bit_eq_div)
qed

text \<open>Below \<open>2 ^ 28\<close> the shift does not reach the sign bit: the tag is \<open>8 * n + c\<close>
  and decomposes into \<open>(n, c)\<close>.\<close>

lemma fieldTag_roundtrip_small:
  assumes "0 \<le> n" "n < 2 ^ 28"
  shows "fieldTag n w = 8 * n + wt_code w
         \<and> tag_number (fieldTag n w) = n \<and> tag_wire (fieldTag n w) = wt_code w"
proof -
  have e: "fieldTag n w = 8 * n + wt_code w"
    using assms by (intro fieldTag_exact) simp_all
  have r: "0 \<le> wt_code w" "wt_code w < 8" using wt_code_range[of w] by simp_all
  have "- (2 ^ 31) \<le> 8 * n + wt_code w" "8 * n + wt_code w < 2 ^ 31"
    using assms r by simp_all
  then have "tag_number (8 * n + wt_code w) = (8 * n + wt_code w) div 8"
    by (rule tag_number_small)
  also have "\<dots> = n" using r by simp
  finally have a: "tag_number (fieldTag n w) = n" by (simp only: e)
  have "tag_wire (8 * n + wt_code w) = wt_code w"
    using r by (simp add: tag_wire_eq)
  then show ?thesis using e a by simp
qed

text \<open>The low three bits survive the wrap-around: the wire category of a tag is the
  one it was built with, for every field number.\<close>

lemma tag_wire_fieldTag: "tag_wire (fieldTag n w) = wt_code w"
proof -
  have "take_bit 3 (signed_take_bit 31 (8 * n + wt_code w)) = take_bit 3 (8 * n + wt_code w)"
    by (rule take_bit_signed_take_bit) simp
  then have "signed_take_bit 31 (8 * n + wt_code w) mod 8 = (8 * n + wt_code w) mod 8"
    by (simp add: take_bit_eq_mod)
  then show ?thesis using wt_code_range[of w]
    by (simp add: tag_wire_eq fieldTag_int)
qed

text \<open>
  C1. The tag of a field is \<open>(n << 3) | c\<close> and decomposes into \<open>(n, c)\<close> again, for
  every field number of protobuf's range \<open>1 .. 2^29 - 1\<close>. The code computes the tag
  with JavaScript's 32-bit \<open><<\<close>, and from field number \<open>2^28 = 268435456\<close> on
  the shift reaches the sign bit: the tag of that field number is the negative number
  \<open>-2147483648\<close>, it decomposes into the field number \<open>-268435456\<close>, and the
  encode statements of an \<open>int32\<close> field of that number pass \<open>0x-80000000\<close> as the
  key.
\<close>

theorem fieldTag_wraps_at_2_28:
  "fieldTag 268435456 Varint = - 2147483648
   \<and> tag_number (fieldTag 268435456 Varint) = - 268435456
   \<and> tag_wire (fieldTag 268435456 Varint) = 0
   \<and> genFieldEncode ex_big_number_field =
       Inr (join nl
        [''    buf = abi.encodePacked(buf, ProtobufRuntime._encode_key(0x-80000000));'',
         ''    buf = abi.encodePacked(buf, ProtobufRuntime._encode_varint(msg.far));''])"
proof -
  have t: "fieldTag 268435456 Varint = - 2147483648" by code_simp
  have n: "tag_number (- 2147483648) = - 268435456" by code_simp
  have w: "tag_wire (- 2147483648) = 0" by (simp add: tag_wire_eq)
  have h: "toString16 (- 2147483648) = ''-80000000''"
    by (simp add: toString16_def toString_radix_def digits_nat.simps[of 16] digit_char_def)
  have c: "snakeToCamel ''far'' = ''far''" by simp
  have g: "genFieldEncode ex_big_number_field =
       Inr (join nl
        [''    buf = abi.encodePacked(buf, ProtobufRuntime._encode_key(0x-80000000));'',
         ''    buf = abi.encodePacked(buf, ProtobufRuntime._encode_varint(msg.far));''])"
    by (simp add: genFieldEncode_def ex_big_number_field_def PROTO_TYPE_MAP_def mk_info_def
        isRepeated_def isMessage_def genScalarEncode_def t h c del: snakeToCamel.simps)
  show ?thesis by (simp only: t n w g)
qed

section \<open>Type resolution\<close>

lemma split_by_nonempty: "split_by sep s \<noteq> []"
  by (induction s) (auto split: list.splits)

lemma PROTO_TYPE_MAP_message: "PROTO_TYPE_MAP 11 = Some (mk_info [] LengthDelimited [] [] [])"
  by (simp add: PROTO_TYPE_MAP_def)

lemma split_by_no_sep: "\<forall>x \<in> set s. \<not> sep x \<Longrightarrow> split_by sep s = [s]"
  by (induction s) simp_all

lemma split_by_sep_length: "\<exists>x \<in> set s. sep x \<Longrightarrow> 2 \<le> length (split_by sep s)"
proof (induction s)
  case Nil
  then show ?case by simp
next
  case (Cons c cs)
  show ?case
  proof (cases "sep c")
    case True
    then show ?thesis
      using split_by_nonempty[of sep cs] by (cases "split_by sep cs") simp_all
  next
    case False
    with Cons.prems have "\<exists>x \<in> set cs. sep x" by simp
    from Cons.IH[OF this] False show ?thesis
      by (cases "split_by sep cs") simp_all
  qed
qed

lemma last_split_by:
  "last (split_by sep s) = rev (takeWhile (\<lambda>c. \<not> sep c) (rev s))"
proof (induction s)
  case Nil
  then show ?case by simp
next
  case (Cons c cs)
  show ?case
  proof (cases "\<exists>x \<in> set cs. sep x")
    case True
    then have t: "takeWhile (\<lambda>c. \<not> sep c) (rev cs @ [c]) = takeWhile (\<lambda>c. \<not> sep c) (rev cs)"
      by (intro takeWhile_append1[where x = "SOME x. x \<in> set cs \<and> sep x"])
         (use True in \<open>auto intro: someI2_ex\<close>)
    from split_by_sep_length[OF True] obtain p q ps where
      s: "split_by sep cs = p # q # ps"
      by (cases "split_by sep cs" rule: list.exhaust; cases "tl (split_by sep cs)") auto
    show ?thesis using Cons.IH t s by (auto split: list.splits)
  next
    case False
    then have n: "\<forall>x \<in> set cs. \<not> sep x" by simp
    then have "split_by sep cs = [cs]" by (rule split_by_no_sep)
    moreover have "takeWhile (\<lambda>c. \<not> sep c) (rev cs @ [c])
                   = rev cs @ takeWhile (\<lambda>c. \<not> sep c) [c]"
      using n by (intro takeWhile_append2) simp
    ultimately show ?thesis by simp
  qed
qed

lemma last_segment_strip: "last_segment (strip_leading_dot s) = last_segment s"
proof (cases s)
  case Nil
  then show ?thesis by simp
next
  case (Cons c cs)
  show ?thesis
  proof (cases "c = CHR ''.''")
    case False
    with Cons show ?thesis by simp
  next
    case True
    have "last_segment (CHR ''.'' # cs) = last_segment cs"
    proof (cases "\<exists>x \<in> set cs. x = CHR ''.''")
      case True
      then have "takeWhile (\<lambda>c. c \<noteq> CHR ''.'') (rev cs @ ''.'')
                 = takeWhile (\<lambda>c. c \<noteq> CHR ''.'') (rev cs)"
        by (intro takeWhile_append1[where x = "CHR ''.''"]) auto
      then show ?thesis by (simp add: last_segment_def)
    next
      case False
      then have n: "\<forall>x \<in> set (rev cs). x \<noteq> CHR ''.''" by auto
      then have "takeWhile (\<lambda>c. c \<noteq> CHR ''.'') (rev cs @ ''.'')
                 = rev cs @ takeWhile (\<lambda>c. c \<noteq> CHR ''.'') ''.''"
        by (intro takeWhile_append2) simp
      then have a: "last_segment (CHR ''.'' # cs) = cs"
        by (simp add: last_segment_def)
      have b: "takeWhile (\<lambda>c. c \<noteq> CHR ''.'') (rev cs) = rev cs"
        using n by (simp add: takeWhile_eq_all_conv)
      have "last_segment cs = cs"
        by (simp only: last_segment_def b rev_rev_ident)
      with a show ?thesis by simp
    qed
    with Cons True show ?thesis by simp
  qed
qed

lemma resolveSolType_error_iff:
  "(\<exists>e. resolveSolType t tn = Inl e) \<longleftrightarrow> PROTO_TYPE_MAP t = None"
  by (auto simp: resolveSolType_def Let_def PROTO_TYPE_MAP_message split: option.splits)

text \<open>
  C9. \<open>resolveSolType\<close> called with field type 11 and an absent or empty type name
  returns the empty string, the placeholder of the table entry, and does not throw;
  it throws exactly for the type codes that have no table entry, and 11 has one.
\<close>

theorem resolveSolType_message_no_name:
  "resolveSolType 11 None = Inr [] \<and> resolveSolType 11 (Some []) = Inr []
   \<and> ((\<exists>e. resolveSolType t tn = Inl e) \<longleftrightarrow> PROTO_TYPE_MAP t = None)
   \<and> PROTO_TYPE_MAP 11 \<noteq> None"
proof -
  have "resolveSolType 11 None = Inr []" "resolveSolType 11 (Some []) = Inr []"
    by (simp_all add: resolveSolType_def PROTO_TYPE_MAP_message mk_info_def)
  then show ?thesis
    using resolveSolType_error_iff[of t tn] by (simp add: PROTO_TYPE_MAP_message)
qed

lemma resolveSolType_message:
  "resolveSolType 11 tn = Inr (last_segment (nullish tn []))"
proof (cases "truthy tn")
  case False
  then have "nullish tn [] = []" by (cases tn) simp_all
  with False show ?thesis
    by (simp add: resolveSolType_def PROTO_TYPE_MAP_message mk_info_def last_segment_def)
next
  case True
  then obtain s where s: "tn = Some s" by (cases tn) simp_all
  let ?parts = "split_on (CHR ''.'') (strip_leading_dot s)"
  have "?parts \<noteq> []" by (simp add: split_on_def split_by_nonempty)
  then have "?parts ! (length ?parts - 1) = last ?parts" by (simp add: last_conv_nth)
  also have "\<dots> = last_segment (strip_leading_dot s)"
    by (simp add: split_on_def last_split_by last_segment_def)
  finally show ?thesis using True s
    by (simp add: resolveSolType_def Let_def last_segment_strip)
qed

lemma resolveSolType_table:
  "PROTO_TYPE_MAP t = Some ti \<Longrightarrow> t \<noteq> 11 \<Longrightarrow> resolveSolType t tn = Inr (solType ti)"
  by (simp add: resolveSolType_def)

lemma resolveSolType_no_name:
  "PROTO_TYPE_MAP t = Some ti \<Longrightarrow> resolveSolType t None = Inr (solType ti)"
  by (simp add: resolveSolType_def)

section \<open>Field names\<close>

lemma is_lower_underscore: "\<not> is_lower (CHR ''_'')"
  by (simp add: is_lower_def)

lemma camel_at_cam: "camel_at s = cam False s"
  by (rule ext) (auto simp: camel_at_def cam_def)

lemma cam_Suc: "cam p (x # s) (Suc i) = cam (x = CHR ''_'') s i"
  by (cases i) (simp_all add: cam_def)

lemma concat_cam_Cons:
  "concat (map (cam p (c # cs)) [0..<length (c # cs)])
   = cam p (c # cs) 0 @ concat (map (cam (c = CHR ''_'') cs) [0..<length cs])"
proof -
  have "[0..<length (c # cs)] = 0 # map Suc [0..<length cs]"
    by (simp add: upt_conv_Cons map_Suc_upt del: upt_Suc)
  then show ?thesis by (simp add: comp_def cam_Suc del: upt_Suc)
qed

lemma concat_cam:
  "concat (map (cam p s) [0..<length s])
   = (case s of [] \<Rightarrow> []
      | c # cs \<Rightarrow> if p \<and> is_lower c then to_upper c # snakeToCamel cs else snakeToCamel s)"
proof (induction s arbitrary: p)
  case Nil
  then show ?case by simp
next
  case (Cons c cs)
  show ?case
  proof (cases cs)
    case Nil
    then show ?thesis by (simp add: cam_def)
  next
    case (Cons d ds)
    have step: "concat (map (cam p (c # cs)) [0..<length (c # cs)])
          = cam p (c # cs) 0 @ (if c = CHR ''_'' \<and> is_lower d then to_upper d # snakeToCamel ds
                                 else snakeToCamel cs)"
      unfolding concat_cam_Cons Cons.IH by (simp add: Cons)
    show ?thesis
      unfolding step using is_lower_underscore
      by (auto simp: cam_def Cons)
  qed
qed

text \<open>
  C10. \<open>snakeToCamel\<close> uppercases a character only when it is a lowercase ASCII
  letter directly preceded by an underscore, and removes that underscore; every other
  character, and so every underscore followed by a digit, an uppercase letter, another
  underscore or nothing, is copied unchanged: the result is the concatenation, over
  the indices of the name, of what \<open>camel_at\<close> makes of each character. So
  \<open>field_1\<close> stays \<open>field_1\<close> and \<open>a__b\<close> becomes \<open>a_B\<close>.
\<close>

theorem snakeToCamel_char_by_char:
  "snakeToCamel name = snakeToCamel_spec name
   \<and> snakeToCamel ''field_1'' = ''field_1''
   \<and> snakeToCamel ''a__b'' = ''a_B''"
proof -
  have "snakeToCamel_spec name = concat (map (cam False name) [0..<length name])"
    by (simp only: snakeToCamel_spec_def camel_at_cam)
  also have "\<dots> = snakeToCamel name"
    unfolding concat_cam by (cases name) simp_all
  finally have a: "snakeToCamel name = snakeToCamel_spec name" by simp
  have b: "snakeToCamel ''field_1'' = ''field_1''"
    by (simp add: is_lower_def to_upper_def)
  have c: "snakeToCamel ''a__b'' = ''a_B''"
    by code_simp
  show ?thesis using a b c by simp
qed

section \<open>Fields of an unsupported type\<close>

lemma num_toString_10: "num_toString 10 = ''10''"
  by (simp add: num_toString_def toString_radix_def digits_nat.simps[of 10] digit_char_def)

lemma genFieldEncode_unsupported:
  "PROTO_TYPE_MAP (fi_type f) = None \<Longrightarrow>
   genFieldEncode f =
     Inr (''    // TODO: unsupported field type '' @ num_toString (fi_type f)
          @ '' for '' @ fi_name f)"
  by (simp add: genFieldEncode_def)

lemma genFieldDecode_unsupported:
  "PROTO_TYPE_MAP (fi_type f) = None \<Longrightarrow>
   genFieldDecode f =
     Inr (''      // TODO: unsupported field type '' @ num_toString (fi_type f)
          @ '' for '' @ fi_name f)"
  by (simp add: genFieldDecode_def)

lemma resolveSolType_unsupported:
  "PROTO_TYPE_MAP t = None \<Longrightarrow>
   resolveSolType t tn = Inl (Error (''Unsupported protobuf field type: '' @ num_toString t))"
  by (auto simp: resolveSolType_def PROTO_TYPE_MAP_message)

lemma genStructMember_unsupported:
  "PROTO_TYPE_MAP (fi_type f) = None \<Longrightarrow>
   genStructMember f =
     Inl (Error (''Unsupported protobuf field type: '' @ num_toString (fi_type f)))"
  by (simp add: genStructMember_def resolveSolType_unsupported bind_err_def)

text \<open>
  C2. A field whose type code has no table entry (group = 10) is to yield a
  placeholder comment from each of the three emissions, without an exception. The
  encode statements and the decode case are such a comment; the struct member is not:
  \<open>genStructMember\<close> asks \<open>resolveSolType\<close>, which throws.
\<close>

theorem group_field_struct_member_throws:
  "genFieldEncode ex_group_field = Inr ''    // TODO: unsupported field type 10 for legacy''
   \<and> genFieldDecode ex_group_field = Inr ''      // TODO: unsupported field type 10 for legacy''
   \<and> genStructMember ex_group_field = Inl (Error ''Unsupported protobuf field type: 10'')"
proof -
  have n: "PROTO_TYPE_MAP (fi_type ex_group_field) = None"
    by (simp add: ex_group_field_def PROTO_TYPE_MAP_def)
  have t: "fi_type ex_group_field = 10" "fi_name ex_group_field = ''legacy''"
    by (simp_all add: ex_group_field_def)
  show ?thesis
    using genFieldEncode_unsupported[OF n] genFieldDecode_unsupported[OF n]
      genStructMember_unsupported[OF n]
    by (simp add: t num_toString_10)
qed

section \<open>Descriptor model construction\<close>





section \<open>The plugin boundary\<close>



text \<open>The second schema file of the example request makes the generator throw: the
  file generated for the first one and the runtime file are not in the result.\<close>

lemma runPlugin_discards_partial_output:
  "runPlugin_result (\<lambda>_. Inr ex_request) ex_generateSolFile ''// runtime'' stdin
   = \<lparr>pr_files = [], pr_error = Some ''Unsupported protobuf field type: 10''\<rparr>"
  by (simp add: runPlugin_result_def processRequest_def bind_err_def Let_def ex_request_def
      ex_proto_file_def ex_generateSolFile_def extractMessages_def)

section \<open>The code emitted for a field\<close>

lemma tag_number_entry:
  "tag_number (fieldTag 1 w) = 1" "tag_number (fieldTag 2 w) = 2"
proof -
  have "0 \<le> (1::int)" "(1::int) < 2 ^ 28" by simp_all
  from fieldTag_roundtrip_small[OF this] show "tag_number (fieldTag 1 w) = 1" by blast
  have "0 \<le> (2::int)" "(2::int) < 2 ^ 28" by simp_all
  from fieldTag_roundtrip_small[OF this] show "tag_number (fieldTag 2 w) = 2" by blast
qed

lemma ex_names:
  "snakeToCamel ''inner_msg'' = ''innerMsg''"
  "snakeToCamel ''item_ids'' = ''itemIds''"
  "snakeToCamel ''labels'' = ''labels''"
  "last_segment ''.pkg.Outer.Inner'' = ''Inner''"
  by code_simp+

lemma ex_tags:
  "toString16 (fieldTag 3 LengthDelimited) = ''1a''"
  "toString16 (fieldTag 7 LengthDelimited) = ''3a''"
  "num_toString (fieldTag 7 LengthDelimited) = ''58''"
  "num_toString (fieldTag 5 Varint) = ''40''"
  "num_toString (fieldTag 1 Varint) = ''8''"
  "num_toString (fieldTag 2 LengthDelimited) = ''18''"
  by (simp_all add: fieldTag_exact toString16_def num_toString_def toString_radix_def
      digits_nat.simps[of 16] digits_nat.simps[of 10] digit_char_def)

subsection \<open>Message fields\<close>

text \<open>
  C6. For a message-typed field (type code 11) that is neither repeated nor a map, the
  encode statements are four: write the field's tag, encode the value with the codec
  of the referenced type into a temporary buffer, write the length of that buffer as
  a varint, write the buffer. The codec is named by the last dot-separated segment of
  the referenced type name followed by \<open>Codec\<close>, and the wire category of the tag
  is 2, length-delimited.
\<close>

theorem message_field_encode:
  assumes "fi_type f = 11" "fi_label f \<noteq> 3" "fi_mapEntry f = None"
  shows "genFieldEncode f =
     Inr (join nl
      [''    buf = abi.encodePacked(buf, ProtobufRuntime._encode_key(0x''
         @ toString16 (fieldTag (fi_number f) LengthDelimited) @ ''));'',
       ''    bytes memory '' @ snakeToCamel (fi_name f) @ ''_encoded = ''
         @ last_segment (nullish (fi_typeName f) []) @ ''Codec.encode(msg.''
         @ snakeToCamel (fi_name f) @ '');'',
       ''    buf = abi.encodePacked(buf, ProtobufRuntime._encode_varint(uint64(''
         @ snakeToCamel (fi_name f) @ ''_encoded.length)));'',
       ''    buf = abi.encodePacked(buf, '' @ snakeToCamel (fi_name f) @ ''_encoded);''])
   \<and> tag_wire (fieldTag (fi_number f) LengthDelimited) = 2"
proof -
  have "genFieldEncode f
        = genMessageEncode f (snakeToCamel (fi_name f))
            (''0x'' @ toString16 (fieldTag (fi_number f) LengthDelimited))"
    using assms
    by (simp add: genFieldEncode_def PROTO_TYPE_MAP_message mk_info_def isRepeated_def
        isMessage_def Let_def)
  then show ?thesis
    using assms(1)
    by (simp add: genMessageEncode_def resolveSolType_message bind_err_def codecLibName_def
        Let_def tag_wire_fieldTag)
qed

theorem message_field_encode_witness:
  "fi_type ex_message_field = 11 \<and> fi_label ex_message_field \<noteq> 3
   \<and> fi_mapEntry ex_message_field = None
   \<and> genFieldEncode ex_message_field =
     Inr (join nl
      [''    buf = abi.encodePacked(buf, ProtobufRuntime._encode_key(0x1a));'',
       ''    bytes memory innerMsg_encoded = InnerCodec.encode(msg.innerMsg);'',
       ''    buf = abi.encodePacked(buf, ProtobufRuntime._encode_varint(uint64(innerMsg_encoded.length)));'',
       ''    buf = abi.encodePacked(buf, innerMsg_encoded);''])"
  using message_field_encode[of ex_message_field]
  by (simp add: ex_message_field_def ex_names ex_tags del: snakeToCamel.simps)

subsection \<open>Repeated fields\<close>



subsection \<open>Map fields\<close>

text \<open>
  C4. For a map field (its own type, its key type and its value type have table
  entries, as in every schema protoc accepts), the encode statements are one loop over the index of the key
  sequence; for each index it builds an entry that holds the key under the tag of
  field 1 with the key type's wire category, then the value under the tag of field 2
  (a message value as a length-delimited buffer of its codec), and writes the outer
  field's tag, the length of the entry as a varint and the entry. The wire category
  of the outer tag is 2, length-delimited.
\<close>

theorem map_field_encode:
  assumes "fi_mapEntry f = Some me" "PROTO_TYPE_MAP (fi_type f) = Some ti"
    "PROTO_TYPE_MAP (keyType me) = Some ki" "PROTO_TYPE_MAP (valueType me) = Some vi"
  shows \<open>genFieldEncode f =
     Inr (join nl
      ([''    for (uint256 _i_'' @ snakeToCamel (fi_name f) @ '' = 0; _i_''
          @ snakeToCamel (fi_name f) @ '' < msg.'' @ snakeToCamel (fi_name f)
          @ ''_keys.length; _i_'' @ snakeToCamel (fi_name f) @ ''++) {'',
        ''      bytes memory _entry = "";'',
        ''      _entry = abi.encodePacked(_entry, ProtobufRuntime._encode_key(''
          @ num_toString (fieldTag 1 (wireType ki)) @ ''));'',
        ''      _entry = abi.encodePacked(_entry, ProtobufRuntime.'' @ encodeFunc ki
          @ ''(msg.'' @ snakeToCamel (fi_name f) @ ''_keys[_i_'' @ snakeToCamel (fi_name f)
          @ '']));'']
       @ (if valueType me = 11 then
           [''      bytes memory _val = '' @ last_segment (nullish (valueTypeName me) [])
              @ ''Codec.encode(msg.'' @ snakeToCamel (fi_name f) @ ''_values[_i_''
              @ snakeToCamel (fi_name f) @ '']);'',
            ''      _entry = abi.encodePacked(_entry, ProtobufRuntime._encode_key(''
              @ num_toString (fieldTag 2 LengthDelimited) @ ''));'',
            ''      _entry = abi.encodePacked(_entry, ProtobufRuntime._encode_varint(uint64(_val.length)));'',
            ''      _entry = abi.encodePacked(_entry, _val);'']
          else
           [''      _entry = abi.encodePacked(_entry, ProtobufRuntime._encode_key(''
              @ num_toString (fieldTag 2 (wireType vi)) @ ''));'',
            ''      _entry = abi.encodePacked(_entry, ProtobufRuntime.'' @ encodeFunc vi
              @ ''(msg.'' @ snakeToCamel (fi_name f) @ ''_values[_i_''
              @ snakeToCamel (fi_name f) @ '']));''])
       @ [''      buf = abi.encodePacked(buf, ProtobufRuntime._encode_key(0x''
            @ toString16 (fieldTag (fi_number f) LengthDelimited) @ ''));'',
          ''      buf = abi.encodePacked(buf, ProtobufRuntime._encode_varint(uint64(_entry.length)));'',
          ''      buf = abi.encodePacked(buf, _entry);'',
          ''    }'']))
   \<and> tag_number (fieldTag 1 (wireType ki)) = 1
   \<and> tag_wire (fieldTag 1 (wireType ki)) = wt_code (wireType ki)
   \<and> tag_number (fieldTag 2 (wireType vi)) = 2
   \<and> tag_wire (fieldTag 2 (wireType vi)) = wt_code (wireType vi)
   \<and> tag_wire (fieldTag (fi_number f) LengthDelimited) = 2\<close>
proof -
  have g: "genFieldEncode f
        = genMapEncode f (''0x'' @ toString16 (fieldTag (fi_number f) LengthDelimited))"
    using assms(1,2) by (simp add: genFieldEncode_def Let_def)
  note t = tag_number_entry
  show ?thesis
  proof (cases "valueType me = 11")
    case True
    with assms(1,3,4) show ?thesis
      unfolding g
      by (simp add: genMapEncode_def prop_of_def bind_err_def Let_def
          resolveSolType_message codecLibName_def tag_wire_fieldTag t)
  next
    case False
    with assms(1,3,4) show ?thesis
      unfolding g
      by (simp add: genMapEncode_def prop_of_def bind_err_def Let_def tag_wire_fieldTag t)
  qed
qed

theorem map_field_encode_witness:
  \<open>fi_mapEntry ex_map_field = Some \<lparr>keyType = 5, valueType = 9, valueTypeName = None\<rparr>
   \<and> genFieldEncode ex_map_field =
     Inr (join nl
      [''    for (uint256 _i_labels = 0; _i_labels < msg.labels_keys.length; _i_labels++) {'',
       ''      bytes memory _entry = "";'',
       ''      _entry = abi.encodePacked(_entry, ProtobufRuntime._encode_key(8));'',
       ''      _entry = abi.encodePacked(_entry, ProtobufRuntime._encode_varint(msg.labels_keys[_i_labels]));'',
       ''      _entry = abi.encodePacked(_entry, ProtobufRuntime._encode_key(18));'',
       ''      _entry = abi.encodePacked(_entry, ProtobufRuntime._encode_string(msg.labels_values[_i_labels]));'',
       ''      buf = abi.encodePacked(buf, ProtobufRuntime._encode_key(0x3a));'',
       ''      buf = abi.encodePacked(buf, ProtobufRuntime._encode_varint(uint64(_entry.length)));'',
       ''      buf = abi.encodePacked(buf, _entry);'',
       ''    }''])\<close>
  using map_field_encode[of ex_map_field "\<lparr>keyType = 5, valueType = 9, valueTypeName = None\<rparr>"
      "mk_info [] LengthDelimited [] [] []"
      "mk_info ''int32'' Varint ''_encode_varint'' ''_decode_varint'' ''0''"
      "mk_info ''string'' LengthDelimited ''_encode_string'' ''_decode_string'' [CHR 0x22, CHR 0x22]"]
  by (simp add: ex_map_field_def PROTO_TYPE_MAP_def mk_info_def ex_names ex_tags
      del: snakeToCamel.simps)

text \<open>
  C5. For a map field (with table entries as above), the decode case reads the length of the entry and loops while
  the position is before the end of the entry: it reads a tag, decodes the key when
  the tag is that of field 1, the value when it is that of field 2, and reverts on
  any other tag. The key and the value are declared before the loop without an
  initial value, and both are pushed after it, whatever tags the entry held.
\<close>

theorem map_field_decode:
  assumes "fi_mapEntry f = Some me" "PROTO_TYPE_MAP (fi_type f) = Some ti"
    "PROTO_TYPE_MAP (keyType me) = Some ki" "PROTO_TYPE_MAP (valueType me) = Some vi"
  shows \<open>genFieldDecode f =
     Inr (join nl
      ([''        case '' @ num_toString (fieldTag (fi_number f) LengthDelimited) @ '':'',
        ''          {'',
        ''            uint64 _entryLen;'',
        ''            (_entryLen, pos) = ProtobufRuntime._decode_varint(data, pos);'',
        ''            uint256 _entryEnd = pos + uint256(_entryLen);'',
        ''            '' @ solType ki @ '' _key;'',
        ''            '' @ (if valueType me = 11 then last_segment (nullish (valueTypeName me) [])
                            else solType vi) @ '' _val;'',
        ''            while (pos < _entryEnd) {'',
        ''              uint64 _entryTag;'',
        ''              (_entryTag, pos) = ProtobufRuntime._decode_key(data, pos);'',
        ''              if (_entryTag == '' @ num_toString (fieldTag 1 (wireType ki)) @ '') {'',
        ''                (_key, pos) = ProtobufRuntime.'' @ decodeFunc ki @ ''(data, pos);'']
       @ (if valueType me = 11 then
           [''              } else if (_entryTag == ''
              @ num_toString (fieldTag 2 LengthDelimited) @ '') {'',
            ''                uint64 _vLen;'',
            ''                (_vLen, pos) = ProtobufRuntime._decode_varint(data, pos);'',
            ''                bytes memory _vSub = ProtobufRuntime._slice(data, pos, pos + uint256(_vLen));'',
            ''                _val = '' @ last_segment (nullish (valueTypeName me) [])
              @ ''Codec.decode(_vSub);'',
            ''                pos += uint256(_vLen);'']
          else
           [''              } else if (_entryTag == ''
              @ num_toString (fieldTag 2 (wireType vi)) @ '') {'',
            ''                (_val, pos) = ProtobufRuntime.'' @ decodeFunc vi @ ''(data, pos);''])
       @ [''              } else {'',
          ''                revert("Unknown map entry tag");'',
          ''              }'',
          ''            }'',
          ''            msg.'' @ snakeToCamel (fi_name f) @ ''_keys.push(_key);'',
          ''            msg.'' @ snakeToCamel (fi_name f) @ ''_values.push(_val);'',
          ''          }'',
          ''          break;'']))
   \<and> tag_number (fieldTag 1 (wireType ki)) = 1
   \<and> tag_number (fieldTag 2 (wireType vi)) = 2\<close>
proof -
  have g: "genFieldDecode f
        = genMapDecode f (snakeToCamel (fi_name f)) (fieldTag (fi_number f) LengthDelimited)"
    using assms(1,2) by (simp add: genFieldDecode_def Let_def)
  note t = tag_number_entry
  have k: "resolveSolType (keyType me) None = Inr (solType ki)"
    using assms(3) by (rule resolveSolType_no_name)
  show ?thesis
  proof (cases "valueType me = 11")
    case True
    with assms(1,3,4) show ?thesis
      unfolding g
      by (simp add: genMapDecode_def prop_of_def bind_err_def Let_def k
          resolveSolType_message codecLibName_def t)
  next
    case False
    then have "resolveSolType (valueType me) (valueTypeName me) = Inr (solType vi)"
      using assms(4) by (simp add: resolveSolType_table)
    with False assms(1,3,4) show ?thesis
      unfolding g
      by (simp add: genMapDecode_def prop_of_def bind_err_def Let_def k t)
  qed
qed

theorem map_field_decode_witness:
  \<open>fi_mapEntry ex_map_field = Some \<lparr>keyType = 5, valueType = 9, valueTypeName = None\<rparr>
   \<and> genFieldDecode ex_map_field =
     Inr (join nl
      [''        case 58:'',
       ''          {'',
       ''            uint64 _entryLen;'',
       ''            (_entryLen, pos) = ProtobufRuntime._decode_varint(data, pos);'',
       ''            uint256 _entryEnd = pos + uint256(_entryLen);'',
       ''            int32 _key;'',
       ''            string _val;'',
       ''            while (pos < _entryEnd) {'',
       ''              uint64 _entryTag;'',
       ''              (_entryTag, pos) = ProtobufRuntime._decode_key(data, pos);'',
       ''              if (_entryTag == 8) {'',
       ''                (_key, pos) = ProtobufRuntime._decode_varint(data, pos);'',
       ''              } else if (_entryTag == 18) {'',
       ''                (_val, pos) = ProtobufRuntime._decode_string(data, pos);'',
       ''              } else {'',
       ''                revert("Unknown map entry tag");'',
       ''              }'',
       ''            }'',
       ''            msg.labels_keys.push(_key);'',
       ''            msg.labels_values.push(_val);'',
       ''          }'',
       ''          break;''])\<close>
  using map_field_decode[of ex_map_field "\<lparr>keyType = 5, valueType = 9, valueTypeName = None\<rparr>"
      "mk_info [] LengthDelimited [] [] []"
      "mk_info ''int32'' Varint ''_encode_varint'' ''_decode_varint'' ''0''"
      "mk_info ''string'' LengthDelimited ''_encode_string'' ''_decode_string'' [CHR 0x22, CHR 0x22]"]
  by (simp add: ex_map_field_def PROTO_TYPE_MAP_def mk_info_def ex_names ex_tags
      del: snakeToCamel.simps)

end
